theory Spec2Isabelle
  imports Complex_Main
begin

section \<open>Python values\<close>

text \<open>
  The model of \<^verbatim>\<open>lighting-control-cli.py\<close>. Exceptions are values of \<open>py_error\<close>;
  a function that can raise returns \<open>py_error + 'a\<close> with \<open>Inl\<close> for the exception.

  Clock readings (\<^verbatim>\<open>time.perf_counter()\<close>), waits and intervals are Python floats; the
  model takes them as exact real numbers, so the rounding of that arithmetic is outside
  the model. The global \<^verbatim>\<open>TEMPO\<close> is kept exactly as Python holds it: an unbounded
  integer, or an IEEE 754 double counted in units of \<open>2 ^ -1074\<close> (the smallest positive
  double, of which every finite double is an integer multiple).
\<close>

datatype py_error =
  ZeroDivisionError | TypeError | UnboundLocalError | OverflowError | IndexError

datatype pyfloat = Fin int | PosInf | NegInf

datatype pynum = PyInt int | PyFloat pyfloat

text \<open>The real number a finite value denotes (the infinities are handled by the callers).\<close>

fun num_val :: "pynum \<Rightarrow> real" where
  "num_val (PyInt n) = of_int n"
| "num_val (PyFloat (Fin k)) = of_int k / 2 ^ 1074"
| "num_val (PyFloat PosInf) = 0"
| "num_val (PyFloat NegInf) = 0"

fun is_zero :: "pynum \<Rightarrow> bool" where
  "is_zero (PyInt n) = (n = 0)"
| "is_zero (PyFloat (Fin k)) = (k = 0)"
| "is_zero (PyFloat PosInf) = False"
| "is_zero (PyFloat NegInf) = False"

text \<open>Python's \<^verbatim>\<open>==\<close> on numbers compares an integer and a float by value.\<close>

fun py_eq :: "pynum \<Rightarrow> pynum \<Rightarrow> bool" where
  "py_eq (PyInt a) (PyInt b) = (a = b)"
| "py_eq (PyInt a) (PyFloat (Fin k)) = (a * 2 ^ 1074 = k)"
| "py_eq (PyFloat (Fin k)) (PyInt b) = (k = b * 2 ^ 1074)"
| "py_eq (PyInt a) (PyFloat f) = False"
| "py_eq (PyFloat f) (PyInt b) = False"
| "py_eq (PyFloat f) (PyFloat g) = (f = g)"

text \<open>The number of binary digits of a natural number.\<close>

fun bits :: "nat \<Rightarrow> nat" where
  "bits n = (if n = 0 then 0 else Suc (bits (n div 2)))"

declare bits.simps [simp del]

text \<open>
  Rounding an exact value, given in units of \<open>2 ^ -1074\<close>, to 53 significant bits, ties to
  the even significand (the IEEE default rounding, which Python uses).
\<close>

definition round53 :: "int \<Rightarrow> int" where
  "round53 q =
     (let a = nat \<bar>q\<bar>; b = bits a in
      if b \<le> 53 then q
      else
        let s = b - 53; m = a div 2 ^ s; r = a mod 2 ^ s; h = 2 ^ (s - 1);
            m' = (if r > h \<or> (r = h \<and> odd m) then m + 1 else m)
        in sgn q * int (m' * 2 ^ s))"

text \<open>\<^verbatim>\<open>x * 2\<close> on a double: exact, or the infinity beyond the largest double.\<close>

fun float_double :: "pyfloat \<Rightarrow> pyfloat" where
  "float_double (Fin k) =
     (if 2 * \<bar>k\<bar> \<ge> 2 ^ 2098 then (if k > 0 then PosInf else NegInf) else Fin (2 * k))"
| "float_double PosInf = PosInf"
| "float_double NegInf = NegInf"

text \<open>
  \<^verbatim>\<open>x / 2\<close> on a double: exact when the unit count is even; an odd unit count lies in the
  lowest binade, where the quotient is a tie and goes to the even neighbour.
\<close>

fun float_half :: "pyfloat \<Rightarrow> pyfloat" where
  "float_half (Fin k) =
     (if even k then Fin (k div 2)
      else let q = k div 2 in Fin (if even q then q else q + 1))"
| "float_half PosInf = PosInf"
| "float_half NegInf = NegInf"

text \<open>\<^verbatim>\<open>TEMPO * 2\<close>: an integer stays an integer.\<close>

fun py_double :: "pynum \<Rightarrow> pynum" where
  "py_double (PyInt n) = PyInt (n * 2)"
| "py_double (PyFloat f) = PyFloat (float_double f)"

text \<open>
  \<^verbatim>\<open>TEMPO / 2\<close>: true division always gives a float; on an integer it is the correctly
  rounded quotient, and OverflowError when that exceeds the doubles.
\<close>

fun py_half :: "pynum \<Rightarrow> py_error + pynum" where
  "py_half (PyInt n) =
     (let r = round53 (n * 2 ^ 1073) in
      if \<bar>r\<bar> \<ge> 2 ^ 2098 then Inl OverflowError else Inr (PyFloat (Fin r)))"
| "py_half (PyFloat f) = Inr (PyFloat (float_half f))"

text \<open>\<^verbatim>\<open>60 / TEMPO\<close>, the quotient taken as a real number.\<close>

fun sixty_div :: "pynum \<Rightarrow> py_error + real" where
  "sixty_div (PyFloat PosInf) = Inr 0"
| "sixty_div (PyFloat NegInf) = Inr 0"
| "sixty_div t = (if is_zero t then Inl ZeroDivisionError else Inr (60 / num_val t))"

section \<open>ScheduledLoop\<close>

record ScheduledLoop =
  beats_per_cycle :: "real option"
  start_time :: "real option"
  cycle_num :: int
  current_tempo :: pynum
  interval :: "real option"

text \<open>\<^verbatim>\<open>ScheduledLoop.__init__\<close>; the second argument is the global \<^verbatim>\<open>TEMPO\<close>.\<close>

definition ScheduledLoop_init :: "real option \<Rightarrow> real option \<Rightarrow> pynum \<Rightarrow> ScheduledLoop" where
  "ScheduledLoop_init bpc intervalOverride tempo =
     \<lparr>beats_per_cycle = bpc, start_time = None, cycle_num = 0,
      current_tempo = tempo, interval = intervalOverride\<rparr>"

text \<open>
  \<^verbatim>\<open>calculate_interval\<close>. The division comes first, whatever the override; the test
  \<^verbatim>\<open>if self.interval:\<close> is Python truthiness, false for \<^verbatim>\<open>None\<close> and for zero; a product
  with \<^verbatim>\<open>None\<close> raises TypeError.
\<close>

definition calculate_interval :: "ScheduledLoop \<Rightarrow> pynum \<Rightarrow> py_error + real" where
  "calculate_interval L tempo =
     (case sixty_div tempo of
        Inl e \<Rightarrow> Inl e
      | Inr beat_duration \<Rightarrow>
          (case interval L of
             Some v \<Rightarrow>
               if v \<noteq> 0 then Inr v
               else (case beats_per_cycle L of
                       None \<Rightarrow> Inl TypeError
                     | Some b \<Rightarrow> Inr (beat_duration * b))
           | None \<Rightarrow>
               (case beats_per_cycle L of
                  None \<Rightarrow> Inl TypeError
                | Some b \<Rightarrow> Inr (beat_duration * b))))"

text \<open>\<^verbatim>\<open>reset_timing\<close>; \<open>t\<close> is the clock reading it takes.\<close>

definition reset_timing :: "real \<Rightarrow> ScheduledLoop \<Rightarrow> ScheduledLoop" where
  "reset_timing t L = L\<lparr>start_time := Some t, cycle_num := 0\<rparr>"

text \<open>
  What one call of \<^verbatim>\<open>wait_for_next_cycle\<close> did: it returned \<^verbatim>\<open>True\<close> after sleeping for the
  given time (\<open>None\<close>: no sleep), or it returned \<^verbatim>\<open>False\<close> after a resync.
\<close>

datatype cycle_result = Fire "real option" | Skip

text \<open>
  \<^verbatim>\<open>wait_for_next_cycle\<close>. The clock is read up to three times in one call: \<open>t_init\<close> by
  the first \<^verbatim>\<open>reset_timing\<close> (only when no start time is set), \<open>now\<close>, and \<open>t_resync\<close>
  by the \<^verbatim>\<open>reset_timing\<close> of the drift branch.
\<close>

definition wait_for_next_cycle ::
  "pynum \<Rightarrow> real \<Rightarrow> real \<Rightarrow> real \<Rightarrow> ScheduledLoop \<Rightarrow> py_error + (cycle_result \<times> ScheduledLoop)" where
  "wait_for_next_cycle tempo t_init now t_resync L =
     (let L1 = (if start_time L = None then reset_timing t_init L else L) in
      case calculate_interval L1 tempo of
        Inl e \<Rightarrow> Inl e
      | Inr ival \<Rightarrow>
          (case start_time L1 of
             None \<Rightarrow> Inl TypeError
           | Some anchor \<Rightarrow>
               let scheduled_time = anchor + of_int (cycle_num L1) * ival;
                   wait_time = scheduled_time - now
               in if wait_time > 0
                  then Inr (Fire (Some wait_time), L1\<lparr>cycle_num := cycle_num L1 + 1\<rparr>)
                  else if wait_time < - (1 / 10)
                  then Inr (Skip, reset_timing t_resync L1)
                  else Inr (Fire None, L1\<lparr>cycle_num := cycle_num L1 + 1\<rparr>)))"

text \<open>\<^verbatim>\<open>check_tempo_changed\<close>; \<open>t\<close> is the reading of its \<^verbatim>\<open>reset_timing\<close>.\<close>

definition check_tempo_changed ::
  "pynum \<Rightarrow> real \<Rightarrow> ScheduledLoop \<Rightarrow> py_error + (bool \<times> ScheduledLoop)" where
  "check_tempo_changed tempo t L =
     (if \<not> py_eq tempo (current_tempo L)
      then
        (let L1 = reset_timing t (L\<lparr>current_tempo := tempo\<rparr>) in
         case calculate_interval L1 tempo of
           Inl e \<Rightarrow> Inl e
         | Inr ival \<Rightarrow> Inr (True, L1))
      else Inr (False, L))"

section \<open>Strings\<close>

text \<open>
  Command lines are taken as ASCII strings; \<^verbatim>\<open>strip\<close>, \<^verbatim>\<open>split\<close>, \<^verbatim>\<open>lower\<close> and
  \<^verbatim>\<open>startswith\<close> are Python's on that range.
\<close>

definition is_space :: "char \<Rightarrow> bool" where
  "is_space c = (let n = (of_char c :: nat) in (9 \<le> n \<and> n \<le> 13) \<or> (28 \<le> n \<and> n \<le> 32))"

definition strip :: "string \<Rightarrow> string" where
  "strip s = rev (dropWhile is_space (rev (dropWhile is_space s)))"

fun split_from :: "string \<Rightarrow> string \<Rightarrow> string list" where
  "split_from w [] = (if w = [] then [] else [w])"
| "split_from w (c # cs) =
     (if is_space c then (if w = [] then split_from [] cs else w # split_from [] cs)
      else split_from (w @ [c]) cs)"

definition split :: "string \<Rightarrow> string list" where
  "split s = split_from [] s"

definition lower_char :: "char \<Rightarrow> char" where
  "lower_char c =
     (let n = (of_char c :: nat) in if 65 \<le> n \<and> n \<le> 90 then char_of (n + 32) else c)"

definition lower :: "string \<Rightarrow> string" where
  "lower s = map lower_char s"

definition startswith :: "string \<Rightarrow> string \<Rightarrow> bool" where
  "startswith s p = (take (length p) s = p)"

definition is_digit :: "char \<Rightarrow> bool" where
  "is_digit c = (let n = (of_char c :: nat) in 48 \<le> n \<and> n \<le> 57)"

fun digits_ok :: "string \<Rightarrow> bool" where
  "digits_ok [] = False"
| "digits_ok [c] = is_digit c"
| "digits_ok (c # d # cs) =
     (is_digit c \<and> (if d = CHR ''_'' then digits_ok cs else digits_ok (d # cs)))"

definition digits_val :: "string \<Rightarrow> int" where
  "digits_val s =
     foldl (\<lambda>a c. 10 * a + (int (of_char c) - 48)) 0 (filter (\<lambda>c. c \<noteq> CHR ''_'') s)"

text \<open>
  \<^verbatim>\<open>int(s)\<close> on an ASCII string: an optional sign, then digits, with single underscores
  allowed between digits; \<open>None\<close> stands for ValueError.
\<close>

definition py_int :: "string \<Rightarrow> int option" where
  "py_int s0 =
     (let s = strip s0 in
      case s of
        [] \<Rightarrow> None
      | c # cs \<Rightarrow>
          if c = CHR ''-'' then (if digits_ok cs then Some (- digits_val cs) else None)
          else if c = CHR ''+'' then (if digits_ok cs then Some (digits_val cs) else None)
          else if digits_ok s then Some (digits_val s) else None)"

section \<open>Colours\<close>

definition NAMED_COLORS :: "(string \<times> string) list" where
  "NAMED_COLORS =
     [(''white'', ''#ffffff''), (''red'', ''#FF0000''), (''orange'', ''#FF2000''),
      (''yellow'', ''#FF9200''), (''ferngreen'', ''#AAFF00''), (''green'', ''#00FF00''),
      (''seagreen'', ''#0EFF1E''), (''cyan'', ''#00FFDD''), (''lavender'', ''#4433fa''),
      (''blue'', ''#0000FF''), (''violet'', ''#9900FF''), (''magenta'', ''#FE00AE''),
      (''pink'', ''#FF0016'')]"

definition effects :: "string list" where
  "effects =
     [''seven_color_cross_fade'', ''red_gradual_change'', ''green_gradual_change'',
      ''blue_gradual_change'', ''yellow_gradual_change'', ''cyan_gradual_change'',
      ''purple_gradual_change'', ''white_gradual_change'', ''red_green_cross_fade'',
      ''red_blue_cross_fade'', ''green_blue_cross_fade'', ''seven_color_strobe_flash'',
      ''red_strobe_flash'', ''green_strobe_flash'', ''blue_stobe_flash'',
      ''yellow_strobe_flash'', ''cyan_strobe_flash'', ''purple_strobe_flash'',
      ''white_strobe_flash'', ''seven_color_jumping'']"

definition resolve_color :: "string \<Rightarrow> string" where
  "resolve_color color_input =
     (if startswith color_input ''#'' then color_input
      else (case map_of NAMED_COLORS (lower color_input) of
              Some h \<Rightarrow> h
            | None \<Rightarrow> color_input))"

section \<open>Bounded windows, tap tempo and latency statistics\<close>

text \<open>\<^verbatim>\<open>deque(maxlen=n).append(x)\<close>: append, then drop the oldest when over the bound.\<close>

definition deque_append :: "nat \<Rightarrow> 'a list \<Rightarrow> 'a \<Rightarrow> 'a list" where
  "deque_append n xs x = (let ys = xs @ [x] in if length ys > n then tl ys else ys)"

text \<open>Python's \<^verbatim>\<open>round\<close> to an integer: a half goes to the even neighbour.\<close>

definition py_round :: "real \<Rightarrow> int" where
  "py_round x =
     (let f = \<lfloor>x\<rfloor>; d = x - of_int f in
      if d < 1 / 2 then f else if d > 1 / 2 then f + 1
      else if even f then f else f + 1)"

definition intervals :: "real list \<Rightarrow> real list" where
  "intervals tap_times = map (\<lambda>i. tap_times ! i - tap_times ! (i - 1)) [1..<length tap_times]"

definition mean :: "real list \<Rightarrow> real" where
  "mean xs = sum_list xs / real (length xs)"

text \<open>
  One pass of the \<^verbatim>\<open>'t'\<close> branch of \<^verbatim>\<open>tap_tempo\<close>, on the buffer and the global tempo;
  \<open>now\<close> is the clock reading of the tap. The result also says whether a tempo was
  published.
\<close>

definition tap_event ::
  "real \<Rightarrow> real list \<times> pynum \<Rightarrow> py_error + (real list \<times> pynum \<times> bool)" where
  "tap_event now st =
     (let tap_times = deque_append 8 (fst st) now in
      if length tap_times \<ge> 2 then
        (let avg_interval = mean (intervals tap_times) in
         if avg_interval = 0 then Inl ZeroDivisionError
         else
           let new_tempo = py_round (60 / avg_interval);
               new_tempo = max 40 (min 240 new_tempo)
           in Inr (tap_times, PyInt new_tempo, True))
      else Inr (tap_times, snd st, False))"

datatype latency_report = NoLatencyData | Latency real real real

text \<open>
  \<^verbatim>\<open>get_latency_stats\<close> on the window \<^verbatim>\<open>latency_history\<close>: the three figures are the ones
  the returned text shows (in milliseconds, before they are cut to one decimal).
\<close>

definition get_latency_stats :: "real list \<Rightarrow> latency_report" where
  "get_latency_stats latency_history =
     (case latency_history of
        [] \<Rightarrow> NoLatencyData
      | x # xs \<Rightarrow>
          Latency (sum_list latency_history / real (length latency_history) * 1000)
                  (foldl min x xs * 1000) (foldl max x xs * 1000))"

text \<open>The append of \<^verbatim>\<open>api_call\<close> to the window of capacity 50.\<close>

definition record_latency :: "real list \<Rightarrow> real \<Rightarrow> real list" where
  "record_latency latency_history latency = deque_append 50 latency_history latency"

section \<open>Tasks and the command dispatcher\<close>

text \<open>
  A task handle is \<open>None\<close> or the coroutine call it was created from. The device calls
  dispatched with \<^verbatim>\<open>asyncio.create_task\<close>, the loops started and cancelled and the lines
  printed are kept, in order, as events.
\<close>

datatype task = ColorCycle string "string option" | StrobeLoop "string option" | BeatLoop

datatype api_call = SetColor string nat | SetPower bool | SetEffect string nat | FlashSimple

datatype msg =
    MsgEffect string | MsgPower bool | MsgColorSet string | MsgFlash | MsgStrobe bool
  | MsgStopped "string list" | MsgColorsSet "string list" | MsgInvalidColors
  | MsgCurrentColors "string list" | MsgPalette | MsgTempoSet pynum | MsgTempoRange
  | MsgInvalidTempo | MsgCurrentTempo pynum | MsgNewTempo pynum | MsgStats latency_report
  | MsgUnknown | MsgTapHeader | MsgTapTempo pynum nat | MsgTapMore nat | MsgTapExit pynum

datatype event = Api api_call | Spawn task | Cancel task | Print msg

text \<open>
  \<^verbatim>\<open>stop_all_tasks\<close>: cancels every handle that is set, prints what it stopped, and returns
  four \<^verbatim>\<open>None\<close>s. The events are returned beside them.
\<close>

definition stop_all_tasks ::
  "task option \<Rightarrow> task option \<Rightarrow> task option \<Rightarrow> task option \<Rightarrow>
   event list \<times> task option \<times> task option \<times> task option \<times> task option" where
  "stop_all_tasks beat_task fade_task switch_task strobe_task =
     (let c1 = (case beat_task of None \<Rightarrow> [] | Some t \<Rightarrow> [(Cancel t, ''beat'')]);
          c2 = (case fade_task of None \<Rightarrow> [] | Some t \<Rightarrow> [(Cancel t, ''fade'')]);
          c3 = (case switch_task of None \<Rightarrow> [] | Some t \<Rightarrow> [(Cancel t, ''switch'')]);
          c4 = (case strobe_task of None \<Rightarrow> [] | Some t \<Rightarrow> [(Cancel t, ''strobe'')]);
          stopped = c1 @ c2 @ c3 @ c4
      in (map fst stopped @ (if stopped \<noteq> [] then [Print (MsgStopped (map snd stopped))] else []),
          None, None, None, None))"

text \<open>The local variables of \<^verbatim>\<open>interactive_mode\<close> and the globals it writes.\<close>

record istate =
  i_idx :: nat
  power_flag :: bool
  strobe :: bool
  beat_task :: "task option"
  fade_task :: "task option"
  switch_task :: "task option"
  strobe_task :: "task option"
  previous_tasks :: "bool \<times> bool"
  TEMPO :: pynum
  COLORS :: "string list"
  events :: "event list"

definition initial_state :: istate where
  "initial_state =
     \<lparr>i_idx = 0, power_flag = False, strobe = False, beat_task = None, fade_task = None,
      switch_task = None, strobe_task = None, previous_tasks = (False, False),
      TEMPO = PyInt 120, COLORS = [''#FE00AE'', ''#00FFDD''], events = []\<rparr>"

text \<open>
  What one round of the command loop reads: the line typed; the clock readings of the
  \<^verbatim>\<open>'t'\<close> keys that follow, up to the first other key (read only by \<^verbatim>\<open>tap\<close>); and the
  latency window as the device calls have left it by then (read only by \<^verbatim>\<open>stats\<close>).
\<close>

record user_input =
  line :: string
  tap_stamps :: "real list"
  latency_history :: "real list"

text \<open>\<^verbatim>\<open>tap_tempo\<close>: the buffer starts empty; an exception leaves the function.\<close>

fun tap_tempo ::
  "real list \<Rightarrow> real list \<Rightarrow> pynum \<Rightarrow> event list \<Rightarrow> py_error + (pynum \<times> event list)" where
  "tap_tempo [] tap_times tempo ev = Inr (tempo, ev @ [Print (MsgTapExit tempo)])"
| "tap_tempo (now # rest) tap_times tempo ev =
     (case tap_event now (tap_times, tempo) of
        Inl e \<Rightarrow> Inl e
      | Inr (tt, tempo', published) \<Rightarrow>
          tap_tempo rest tt tempo'
            (ev @ [Print (if published then MsgTapTempo tempo' (length tt)
                          else MsgTapMore (length tt))]))"

definition color_arg :: "string \<Rightarrow> string option" where
  "color_arg command =
     (let parts = split command in
      if length parts > 1 then Some (resolve_color (parts ! 1)) else None)"

definition set_handles ::
  "task option \<times> task option \<times> task option \<times> task option \<Rightarrow> istate \<Rightarrow> istate" where
  "set_handles h s =
     (case h of (b, f, sw, st) \<Rightarrow>
        s\<lparr>beat_task := b, fade_task := f, switch_task := sw, strobe_task := st\<rparr>)"

definition emit :: "event list \<Rightarrow> istate \<Rightarrow> istate" where
  "emit ev s = s\<lparr>events := events s @ ev\<rparr>"

text \<open>
  \<^verbatim>\<open>stop_all_tasks\<close> called on the four handles and assigned back to them, as every caller
  does.
\<close>

definition stop_all :: "istate \<Rightarrow> istate" where
  "stop_all s =
     (case stop_all_tasks (beat_task s) (fade_task s) (switch_task s) (strobe_task s) of
        (ev, h) \<Rightarrow> set_handles h (emit ev s))"

text \<open>The branch \<^verbatim>\<open>command == "s"\<close>.\<close>

definition strobe_command :: "string \<Rightarrow> istate \<Rightarrow> istate" where
  "strobe_command command s0 =
     (let color = color_arg command;
          s1 = s0\<lparr>strobe := \<not> strobe s0\<rparr>;
          s2 = (if strobe s1
                then s1\<lparr>previous_tasks := (fade_task s1 \<noteq> None, switch_task s1 \<noteq> None)\<rparr>
                else s1);
          s3 = stop_all s2
      in if strobe s3
         then emit [Print (MsgStrobe True), Spawn (StrobeLoop color)]
                (s3\<lparr>strobe_task := Some (StrobeLoop color)\<rparr>)
         else
           (let s4 = emit [Print (MsgStrobe False)] s3 in
            if fst (previous_tasks s4)
            then emit [Spawn (ColorCycle ''fade'' None)]
                   (s4\<lparr>fade_task := Some (ColorCycle ''fade'' None)\<rparr>)
            else if snd (previous_tasks s4)
            then emit [Spawn (ColorCycle ''switch'' None)]
                   (s4\<lparr>switch_task := Some (ColorCycle ''switch'' None)\<rparr>)
            else s4))"

text \<open>The branch \<^verbatim>\<open>command.startswith("colors")\<close>.\<close>

definition colors_command :: "string \<Rightarrow> istate \<Rightarrow> istate" where
  "colors_command command s =
     (let parts = split command in
      if length parts > 1 then
        (let new_colors = map resolve_color (tl parts);
             new_colors = filter (\<lambda>c. startswith c ''#'') new_colors
         in if new_colors \<noteq> []
            then emit [Print (MsgColorsSet new_colors)] (s\<lparr>COLORS := new_colors\<rparr>)
            else emit [Print MsgInvalidColors] s)
      else emit [Print (MsgCurrentColors (COLORS s))] s)"

text \<open>The branch \<^verbatim>\<open>command.startswith("tempo")\<close>; ValueError is caught there.\<close>

definition tempo_command :: "string \<Rightarrow> istate \<Rightarrow> istate" where
  "tempo_command command s =
     (let parts = split command in
      if length parts > 1 then
        (case py_int (parts ! 1) of
           None \<Rightarrow> emit [Print MsgInvalidTempo] s
         | Some new_tempo \<Rightarrow>
             if 40 \<le> new_tempo \<and> new_tempo \<le> 240
             then emit [Print (MsgTempoSet (PyInt new_tempo))] (s\<lparr>TEMPO := PyInt new_tempo\<rparr>)
             else emit [Print MsgTempoRange] s)
      else emit [Print (MsgCurrentTempo (TEMPO s))] s)"

text \<open>
  The \<^verbatim>\<open>if\<close>/\<^verbatim>\<open>elif\<close> chain of \<^verbatim>\<open>interactive_mode\<close> below \<^verbatim>\<open>command == "q"\<close>, in the
  order of the source; \<open>command\<close> is the stripped line.
\<close>

definition dispatch :: "user_input \<Rightarrow> string \<Rightarrow> istate \<Rightarrow> py_error + istate" where
  "dispatch x command s =
     (if command = ''e'' then
        (let name = effects ! (i_idx s mod length effects) in
         Inr (emit [Api (SetEffect name 100), Print (MsgEffect name)] (s\<lparr>i_idx := i_idx s + 1\<rparr>)))
      else if command = ''p'' then
        Inr (emit [Api (SetPower (power_flag s)), Print (MsgPower (\<not> power_flag s))]
               (s\<lparr>power_flag := \<not> power_flag s\<rparr>))
      else if startswith command ''#'' \<or> lower command \<in> set (map fst NAMED_COLORS) then
        (let color = resolve_color command in
         Inr (emit [Api (SetColor color 100), Print (MsgColorSet color)] s))
      else if command = ''f'' then
        Inr (emit [Api FlashSimple, Print MsgFlash] s)
      else if command = ''s'' then
        Inr (strobe_command command s)
      else if startswith command ''fade'' then
        (let color = color_arg command; s1 = stop_all s in
         Inr (emit [Spawn (ColorCycle ''fade'' color)]
                (s1\<lparr>fade_task := Some (ColorCycle ''fade'' color)\<rparr>)))
      else if startswith command ''switch'' then
        (let color = color_arg command; s1 = stop_all s in
         Inr (emit [Spawn (ColorCycle ''switch'' color)]
                (s1\<lparr>switch_task := Some (ColorCycle ''switch'' color)\<rparr>)))
      else if startswith command ''colors'' then
        Inr (colors_command command s)
      else if command = ''palette'' then
        Inr (emit [Print MsgPalette] s)
      else if command = ''beat'' then
        (let s1 = stop_all s in
         Inr (emit [Spawn BeatLoop] (s1\<lparr>beat_task := Some BeatLoop\<rparr>)))
      else if command = ''tap'' then
        (case tap_tempo (tap_stamps x) [] (TEMPO s) [Print MsgTapHeader] of
           Inl e \<Rightarrow> Inl e
         | Inr (t, ev) \<Rightarrow> Inr (emit ev (s\<lparr>TEMPO := t\<rparr>)))
      else if startswith command ''tempo'' then
        Inr (tempo_command command s)
      else if command = '']'' then
        (let newTempo = py_double (TEMPO s) in
         Inr (emit [Print (MsgNewTempo newTempo)] (s\<lparr>TEMPO := newTempo\<rparr>)))
      else if command = ''['' then
        (case py_half (TEMPO s) of
           Inl e \<Rightarrow> Inl e
         | Inr newTempo \<Rightarrow> Inr (emit [Print (MsgNewTempo newTempo)] (s\<lparr>TEMPO := newTempo\<rparr>)))
      else if command = ''stop'' then
        Inr (emit [Api (SetPower False)] (stop_all s))
      else if command = ''stats'' then
        Inr (emit [Print (MsgStats (get_latency_stats (latency_history x)))] s)
      else Inr (emit [Print MsgUnknown] s))"

text \<open>
  The command loop on the inputs of a session, as far as they go: \<^verbatim>\<open>q\<close> leaves the loop,
  an exception leaves the function.
\<close>

fun interactive_mode :: "user_input list \<Rightarrow> istate \<Rightarrow> py_error + istate" where
  "interactive_mode [] s = Inr s"
| "interactive_mode (x # xs) s =
     (let command = strip (line x) in
      if command = ''q'' then Inr s
      else (case dispatch x command s of
              Inl e \<Rightarrow> Inl e
            | Inr s' \<Rightarrow> interactive_mode xs s'))"

section \<open>The colour cycle loop\<close>

text \<open>
  The locals of \<^verbatim>\<open>color_cycle_loop\<close>. \<open>power_state\<close> is \<open>None\<close> while the name is
  unbound: the function assigns it only inside the loop, from its own value.
\<close>

record cycle_state =
  colors_to_use :: "string list"
  color_index :: nat
  current_color :: string
  power_state :: "bool option"
  loop :: ScheduledLoop

text \<open>
  The part before \<^verbatim>\<open>while True\<close>; \<open>tempo\<close> and \<open>colors\<close> are the globals at the call.
\<close>

definition color_cycle_start ::
  "string \<Rightarrow> string option \<Rightarrow> pynum \<Rightarrow> string list \<Rightarrow> py_error + (cycle_state \<times> event list)" where
  "color_cycle_start mode color tempo colors =
     (let ctu = (case color of None \<Rightarrow> colors | Some c \<Rightarrow> [c]) in
      case ctu of
        [] \<Rightarrow> Inl IndexError
      | c0 # _ \<Rightarrow>
          (let lp = ScheduledLoop_init (Some 2) None tempo in
           case calculate_interval lp tempo of
             Inl e \<Rightarrow> Inl e
           | Inr ival \<Rightarrow>
               Inr (\<lparr>colors_to_use = ctu, color_index = 0, current_color = c0,
                     power_state = None, loop = lp\<rparr>,
                    Api (SetColor c0 100) #
                      (if mode = ''fade'' then [] else [Api (SetPower True)]))))"

text \<open>The action of a cycle that fires.\<close>

definition cycle_action :: "string \<Rightarrow> cycle_state \<Rightarrow> py_error + (cycle_state \<times> event list)" where
  "cycle_action mode st =
     (if mode = ''fade'' then
        (case power_state st of
           None \<Rightarrow> Inl UnboundLocalError
         | Some p \<Rightarrow>
             (let st1 = st\<lparr>power_state := Some (\<not> p)\<rparr> in
              if \<not> p \<and> length (colors_to_use st1) > 1 then
                (let idx = (color_index st1 + 1) mod length (colors_to_use st1);
                     c = colors_to_use st1 ! idx
                 in Inr (st1\<lparr>color_index := idx, current_color := c\<rparr>,
                         [Api (SetPower (\<not> p)), Api (SetColor c 100)]))
              else Inr (st1, [Api (SetPower (\<not> p))])))
      else
        (let st1 = (if length (colors_to_use st) > 1
                    then (let idx = (color_index st + 1) mod length (colors_to_use st)
                          in st\<lparr>color_index := idx, current_color := colors_to_use st ! idx\<rparr>)
                    else st)
         in Inr (st1, [Api (SetColor (current_color st1) 100)])))"

text \<open>
  What one pass of the loop body reads: the globals (no suspension lies between their
  reads) and the four clock readings it may take.
\<close>

record cycle_env =
  env_tempo :: pynum
  env_colors :: "string list"
  t_check :: real
  t_init :: real
  t_now :: real
  t_resync :: real

definition cycle_iteration ::
  "string \<Rightarrow> string option \<Rightarrow> cycle_env \<Rightarrow> cycle_state \<Rightarrow> py_error + (cycle_state \<times> event list)" where
  "cycle_iteration mode color e st =
     (case check_tempo_changed (env_tempo e) (t_check e) (loop st) of
        Inl err \<Rightarrow> Inl err
      | Inr (changed, L1) \<Rightarrow>
          (let st1 = st\<lparr>loop := L1\<rparr>;
               st2 = (if color = None \<and> colors_to_use st1 \<noteq> env_colors e
                      then st1\<lparr>colors_to_use := env_colors e\<rparr> else st1)
           in case wait_for_next_cycle (env_tempo e) (t_init e) (t_now e) (t_resync e) (loop st2) of
                Inl err \<Rightarrow> Inl err
              | Inr (Skip, L2) \<Rightarrow> Inr (st2\<lparr>loop := L2\<rparr>, [])
              | Inr (Fire w, L2) \<Rightarrow> cycle_action mode (st2\<lparr>loop := L2\<rparr>)))"

text \<open>The passes of \<^verbatim>\<open>while True\<close> on the environments given, the events collected.\<close>

fun cycle_passes ::
  "string \<Rightarrow> string option \<Rightarrow> cycle_env list \<Rightarrow> cycle_state \<Rightarrow> event list \<Rightarrow>
   py_error + (cycle_state \<times> event list)" where
  "cycle_passes mode color [] st ev = Inr (st, ev)"
| "cycle_passes mode color (e # es) st ev =
     (case cycle_iteration mode color e st of
        Inl err \<Rightarrow> Inl err
      | Inr (st', ev') \<Rightarrow> cycle_passes mode color es st' (ev @ ev'))"

definition color_cycle_loop ::
  "string \<Rightarrow> string option \<Rightarrow> pynum \<Rightarrow> string list \<Rightarrow> cycle_env list \<Rightarrow>
   py_error + (cycle_state \<times> event list)" where
  "color_cycle_loop mode color tempo colors es =
     (case color_cycle_start mode color tempo colors of
        Inl err \<Rightarrow> Inl err
      | Inr (st, ev) \<Rightarrow> cycle_passes mode color es st ev)"

section \<open>Notions used in the statements\<close>






text \<open>The handles that are set.\<close>

definition live_handles :: "istate \<Rightarrow> task list" where
  "live_handles s =
     concat (map (\<lambda>h. case h of None \<Rightarrow> [] | Some t \<Rightarrow> [t])
               [beat_task s, fade_task s, switch_task s, strobe_task s])"

text \<open>The latency window after the samples \<open>ss\<close> were recorded, the first one first.\<close>

definition record_all :: "real list \<Rightarrow> real list" where
  "record_all ss = foldl record_latency [] ss"

text \<open>A round of the command loop that types \<open>c\<close> and nothing else.\<close>

definition typed :: "string \<Rightarrow> user_input" where
  "typed c = \<lparr>line = c, tap_stamps = [], latency_history = []\<rparr>"

text \<open>The tempo a session ends with.\<close>

definition final_tempo :: "py_error + istate \<Rightarrow> py_error + pynum" where
  "final_tempo r = (case r of Inl e \<Rightarrow> Inl e | Inr s \<Rightarrow> Inr (TEMPO s))"

section \<open>The scheduler\<close>








lemma calculate_interval_reset_timing [simp]:
  "calculate_interval (reset_timing t L) tempo = calculate_interval L tempo"
  by (simp add: calculate_interval_def reset_timing_def split: sum.splits option.splits)









section \<open>The power command\<close>

text \<open>
  C10. The \<^verbatim>\<open>p\<close> command dispatches \<^verbatim>\<open>set_power\<close> with the flag as it is before the
  toggle and only then negates it, so the value sent is the negation of the state it
  prints; the first \<^verbatim>\<open>p\<close> of a session sends power off and reports power on.
\<close>

theorem power_command_sends_old_flag:
  "dispatch x ''p'' s =
     Inr (s\<lparr>power_flag := \<not> power_flag s,
            events := events s @ [Api (SetPower (power_flag s)), Print (MsgPower (\<not> power_flag s))]\<rparr>)
   \<and> map_sum id events (interactive_mode [typed ''p''] initial_state)
       = Inr [Api (SetPower False), Print (MsgPower True)]"
  by (simp add: dispatch_def emit_def typed_def strip_def is_space_def initial_state_def)

section \<open>The latency window\<close>

lemma deque_append_last:
  "deque_append n xs x = (if length xs < n then xs @ [x] else tl (xs @ [x]))"
  by (auto simp: deque_append_def Let_def)

lemma record_all_snoc: "record_all (ss @ [x]) = record_latency (record_all ss) x"
  by (simp add: record_all_def)

lemma record_all_drop: "record_all ss = drop (length ss - 50) ss"
proof (induction ss rule: rev_induct)
  case Nil
  then show ?case by (simp add: record_all_def)
next
  case (snoc x ss)
  show ?case
  proof (cases "length ss < 50")
    case True
    then show ?thesis
      using snoc by (simp add: record_all_snoc record_latency_def deque_append_def)
  next
    case False
    define k where "k = length ss - 50"
    have k: "Suc k \<le> length ss" "Suc (length ss) - 50 = Suc k"
      using False by (auto simp: k_def)
    have ne: "drop k ss \<noteq> []" using k by auto
    have "record_all (ss @ [x]) = tl (drop k ss @ [x])"
      using snoc False by (simp add: record_all_snoc record_latency_def deque_append_def k_def)
    also have "\<dots> = tl (drop k ss) @ [x]" using ne by simp
    also have "\<dots> = drop (Suc k) ss @ [x]" by (simp add: drop_Suc tl_drop)
    also have "\<dots> = drop (Suc k) (ss @ [x])" using k by simp
    finally show ?thesis using k by simp
  qed
qed

lemma foldl_min_Min: "foldl min x xs = Min (set (x # xs))" for x :: real
proof -
  have "(\<lambda>y a. min a y) = (min :: real \<Rightarrow> real \<Rightarrow> real)"
    by (intro ext) (simp add: min.commute)
  then have "foldl min x xs = fold min xs x"
    by (simp only: foldl_conv_fold)
  also have "\<dots> = Min (set (x # xs))"
    by (rule Min.set_eq_fold [symmetric])
  finally show ?thesis .
qed

lemma foldl_max_Max: "foldl max x xs = Max (set (x # xs))" for x :: real
proof -
  have "(\<lambda>y a. max a y) = (max :: real \<Rightarrow> real \<Rightarrow> real)"
    by (intro ext) (simp add: max.commute)
  then have "foldl max x xs = fold max xs x"
    by (simp only: foldl_conv_fold)
  also have "\<dots> = Max (set (x # xs))"
    by (rule Max.set_eq_fold [symmetric])
  finally show ?thesis .
qed

lemma get_latency_stats_nonempty:
  assumes "w \<noteq> []"
  shows "get_latency_stats w =
      Latency (sum_list w / real (length w) * 1000) (Min (set w) * 1000) (Max (set w) * 1000)"
proof -
  obtain x xs where w: "w = x # xs" using assms by (cases w) auto
  have "get_latency_stats w =
      Latency (sum_list w / real (length w) * 1000) (foldl min x xs * 1000) (foldl max x xs * 1000)"
    by (simp add: get_latency_stats_def w)
  then show ?thesis by (simp only: foldl_min_Min foldl_max_Max w)
qed

lemma length_record_all: "length (record_all ss) = min 50 (length ss)"
  by (simp add: record_all_drop)

text \<open>
  C9. The statistics query gives the no-data result exactly when no sample has been
  recorded. Recording appends to the window and drops the oldest sample once 50 are
  held, so the window is always the last 50 samples recorded (all of them while there are
  fewer); after 51 samples it holds exactly the 50 most recent ones, and the average,
  minimum and maximum reported are those of these 50.
\<close>

theorem latency_window:
  "(get_latency_stats (record_all ss) = NoLatencyData \<longleftrightarrow> ss = [])
   \<and> record_all (ss @ [x]) = deque_append 50 (record_all ss) x
   \<and> record_all ss = drop (length ss - 50) ss
   \<and> length (record_all ss) = min 50 (length ss)
   \<and> (length ss = 51 \<longrightarrow>
        record_all ss = tl ss \<and> length (record_all ss) = 50
      \<and> get_latency_stats (record_all ss) =
          Latency (sum_list (tl ss) / 50 * 1000) (Min (set (tl ss)) * 1000)
            (Max (set (tl ss)) * 1000))"
proof -
  have d: "record_all ss = drop (length ss - 50) ss" by (rule record_all_drop)
  have l: "length (record_all ss) = min 50 (length ss)" by (rule length_record_all)
  have e: "(get_latency_stats (record_all ss) = NoLatencyData) = (ss = [])"
  proof (cases "ss = []")
    case True
    then show ?thesis by (simp add: record_all_def get_latency_stats_def)
  next
    case False
    then have "0 < length (record_all ss)" by (simp add: l)
    then have "record_all ss \<noteq> []" by auto
    then show ?thesis using False by (simp add: get_latency_stats_nonempty)
  qed
  have a: "record_all (ss @ [x]) = deque_append 50 (record_all ss) x"
    by (simp add: record_all_snoc record_latency_def)
  have f: "record_all ss = tl ss" if "length ss = 51"
    using that by (simp add: d drop_Suc)
  have g: "get_latency_stats (tl ss) =
          Latency (sum_list (tl ss) / 50 * 1000) (Min (set (tl ss)) * 1000)
            (Max (set (tl ss)) * 1000)" if "length ss = 51"
  proof -
    have n: "length (tl ss) = 50" using that by simp
    then have "0 < length (tl ss)" by simp
    then have "tl ss \<noteq> []" by blast
    then show ?thesis using n by (simp add: get_latency_stats_nonempty)
  qed
  show ?thesis
    using e a d l f g by simp
qed

theorem latency_window_witness:
  "length ((5 :: real) # replicate 49 (1 / 100) @ [3 / 100]) = 51
   \<and> get_latency_stats (record_all ((5 :: real) # replicate 49 (1 / 100) @ [3 / 100])) =
       Latency (52 / 5) 10 30"
proof -
  have h: "length ((5 :: real) # replicate 49 (1 / 100) @ [3 / 100]) = 51" by simp
  have s: "set (replicate 49 (1 / 100 :: real) @ [3 / 100]) = {1 / 100, 3 / 100}" by auto
  have "length ((5 :: real) # replicate 49 (1 / 100) @ [3 / 100]) = 51 \<longrightarrow>
     get_latency_stats (record_all ((5 :: real) # replicate 49 (1 / 100) @ [3 / 100])) =
          Latency (sum_list (tl ((5 :: real) # replicate 49 (1 / 100) @ [3 / 100])) / 50 * 1000)
           (Min (set (tl ((5 :: real) # replicate 49 (1 / 100) @ [3 / 100]))) * 1000)
            (Max (set (tl ((5 :: real) # replicate 49 (1 / 100) @ [3 / 100]))) * 1000)"
    using latency_window [of "(5 :: real) # replicate 49 (1 / 100) @ [3 / 100]"] by blast
  with h have "get_latency_stats (record_all ((5 :: real) # replicate 49 (1 / 100) @ [3 / 100])) =
          Latency (sum_list (tl ((5 :: real) # replicate 49 (1 / 100) @ [3 / 100])) / 50 * 1000)
           (Min (set (tl ((5 :: real) # replicate 49 (1 / 100) @ [3 / 100]))) * 1000)
            (Max (set (tl ((5 :: real) # replicate 49 (1 / 100) @ [3 / 100]))) * 1000)"
    by blast
  then show ?thesis
    by (simp add: s sum_list_replicate)
qed

section \<open>Tap tempo\<close>










section \<open>The colours command\<close>










section \<open>Task handles and the strobe toggle\<close>

lemma live_handles_emit [simp]: "live_handles (emit ev s) = live_handles s"
  by (simp add: live_handles_def emit_def)

lemma handles_emit [simp]:
  "beat_task (emit ev s) = beat_task s" "fade_task (emit ev s) = fade_task s"
  "switch_task (emit ev s) = switch_task s" "strobe_task (emit ev s) = strobe_task s"
  "strobe (emit ev s) = strobe s" "previous_tasks (emit ev s) = previous_tasks s"
  "events (emit ev s) = events s @ ev"
  by (simp_all add: emit_def)


lemma stop_all_handles [simp]:
  "beat_task (stop_all s) = None" "fade_task (stop_all s) = None"
  "switch_task (stop_all s) = None" "strobe_task (stop_all s) = None"
  "strobe (stop_all s) = strobe s" "previous_tasks (stop_all s) = previous_tasks s"
  "events (stop_all s) =
     events s @ fst (stop_all_tasks (beat_task s) (fade_task s) (switch_task s) (strobe_task s))"
  by (simp_all add: stop_all_def stop_all_tasks_def set_handles_def emit_def Let_def)

lemma live_handles_stop_all [simp]: "live_handles (stop_all s) = []"
  by (simp add: live_handles_def)

lemma color_arg_s [simp]: "color_arg ''s'' = None"
  by (simp add: color_arg_def split_def is_space_def)




lemma dispatch_beat: "dispatch x ''beat'' s = Inr (emit [Spawn BeatLoop] ((stop_all s)\<lparr>beat_task := Some BeatLoop\<rparr>))"
  by (simp add: dispatch_def startswith_def lower_def lower_char_def NAMED_COLORS_def)

lemma dispatch_stop: "dispatch x ''stop'' s = Inr (emit [Api (SetPower False)] (stop_all s))"
  by (simp add: dispatch_def startswith_def lower_def lower_char_def NAMED_COLORS_def)


lemma live_handles_colors_command [simp]: "live_handles (colors_command c s) = live_handles s"
  by (simp add: colors_command_def Let_def live_handles_def emit_def)

lemma live_handles_tempo_command [simp]: "live_handles (tempo_command c s) = live_handles s"
  by (simp add: tempo_command_def Let_def live_handles_def emit_def split: option.splits)

lemma live_handles_fields [simp]:
  "live_handles (s\<lparr>i_idx := a\<rparr>) = live_handles s"
  "live_handles (s\<lparr>power_flag := b\<rparr>) = live_handles s"
  "live_handles (s\<lparr>TEMPO := t\<rparr>) = live_handles s"
  "live_handles (s\<lparr>COLORS := c\<rparr>) = live_handles s"
  by (simp_all add: live_handles_def)















lemma color_arg_plain [simp]: "color_arg ''fade'' = None" "color_arg ''switch'' = None"
  by (simp_all add: color_arg_def split_def is_space_def)



lemma strip_plain [simp]:
  "strip ''fade'' = ''fade''" "strip ''switch'' = ''switch''" "strip ''s'' = ''s''"
  by (simp_all add: strip_def is_space_def)










section \<open>The fade loop\<close>

lemma cycle_action_fade_unbound:
  "power_state st = None \<Longrightarrow> cycle_action ''fade'' st = Inl UnboundLocalError"
  by (simp add: cycle_action_def)

lemma color_cycle_start_unbound:
  "color_cycle_start mode color tempo colors = Inr (st, ev) \<Longrightarrow> power_state st = None"
  by (auto simp: color_cycle_start_def Let_def split: list.splits sum.splits option.splits)

lemma color_cycle_start_no_power:
  "color_cycle_start ''fade'' color tempo colors = Inr (st, ev) \<Longrightarrow> Api (SetPower b) \<notin> set ev"
  by (auto simp: color_cycle_start_def Let_def split: list.splits sum.splits option.splits)

lemma cycle_iteration_fade:
  assumes "cycle_iteration ''fade'' color e st = Inr (st', ev)" and "power_state st = None"
  shows "power_state st' = None \<and> ev = []"
  using assms
  by (auto simp: cycle_iteration_def Let_def cycle_action_fade_unbound
      split: sum.splits prod.splits cycle_result.splits if_splits)

lemma cycle_passes_fade:
  assumes "cycle_passes ''fade'' color es st ev = Inr (st', ev')" and "power_state st = None"
  shows "power_state st' = None \<and> ev' = ev"
  using assms
proof (induction es arbitrary: st ev)
  case Nil
  then show ?case by simp
next
  case (Cons e es)
  from Cons.prems(1) obtain st1 ev1 where
    i: "cycle_iteration ''fade'' color e st = Inr (st1, ev1)"
    and p: "cycle_passes ''fade'' color es st1 (ev @ ev1) = Inr (st', ev')"
    by (auto split: sum.splits prod.splits)
  from cycle_iteration_fade [OF i Cons.prems(2)] have "power_state st1 = None" "ev1 = []"
    by simp_all
  with Cons.IH [OF p] show ?case by simp
qed

text \<open>
  The fade loop never gets to toggle: as long as it runs, \<open>power_state\<close> is unbound and
  no power value has been dispatched.
\<close>

lemma fade_loop_never_toggles:
  assumes "color_cycle_loop ''fade'' color tempo colors es = Inr (st, ev)"
  shows "power_state st = None \<and> (\<forall>b. Api (SetPower b) \<notin> set ev)"
proof -
  from assms obtain st0 ev0 where
    s: "color_cycle_start ''fade'' color tempo colors = Inr (st0, ev0)"
    and p: "cycle_passes ''fade'' color es st0 ev0 = Inr (st, ev)"
    by (auto simp: color_cycle_loop_def split: sum.splits prod.splits)
  have "power_state st0 = None" using s by (rule color_cycle_start_unbound)
  with p have "power_state st = None \<and> ev = ev0" by (rule cycle_passes_fade)
  then show ?thesis using color_cycle_start_no_power [OF s] by simp
qed

text \<open>
  C3, on the code. The fade loop is started with the default colours at tempo 120; its
  first pass finds the first cycle due (\<^verbatim>\<open>wait_for_next_cycle\<close> fires, without sleep), and
  the toggle \<^verbatim>\<open>power_state = not power_state\<close> then reads a name that was never
  assigned: the loop ends with UnboundLocalError instead of dispatching a power value.
\<close>

theorem fade_first_fire_unbound:
  "color_cycle_loop ''fade'' None (PyInt 120) [''#FE00AE'', ''#00FFDD'']
     [\<lparr>env_tempo = PyInt 120, env_colors = [''#FE00AE'', ''#00FFDD''],
       t_check = 0, t_init = 0, t_now = 0, t_resync = 0\<rparr>]
   = Inl UnboundLocalError
   \<and> wait_for_next_cycle (PyInt 120) 0 0 0 (ScheduledLoop_init (Some 2) None (PyInt 120))
     = Inr (Fire None, ScheduledLoop_init (Some 2) None (PyInt 120)
              \<lparr>start_time := Some 0, cycle_num := 1\<rparr>)"
  by code_simp

end
